theory Spec2Isabelle
  imports Main
begin

section \<open>The summarizer collaborator\<close>

text \<open>
  The chat client \<open>llm\<close> is a package-level handle to a remote service. Its \<open>Call\<close> returns
  an answer pointer (nil or a message with content) and an error. The service is not a
  function of its arguments, so the model indexes the client by the number of calls made so
  far and threads that counter through every function that reaches \<open>executeAI\<close>.
\<close>

type_synonym reply = "string option \<times> string option"
  \<comment> \<open>the answer's content (\<open>None\<close> for a nil answer) and the error (\<open>None\<close> for nil)\<close>

type_synonym chat = "nat \<Rightarrow> string \<Rightarrow> string \<Rightarrow> reply"

definition executeAI :: "chat \<Rightarrow> nat \<Rightarrow> string \<Rightarrow> string \<Rightarrow> string \<times> nat" where
  "executeAI llm n role instr =
     (case fst (llm n role instr) of
        None \<Rightarrow> ([], Suc n)
      | Some c \<Rightarrow> (c, Suc n))"

definition descriptionSummary :: "chat \<Rightarrow> nat \<Rightarrow> string \<Rightarrow> string \<times> nat" where
  "descriptionSummary llm n text =
     executeAI llm n ''You are a BOT that rewrites GitHub Issue and PR descriptions.''
       (''Rewrite description below in couple of lines:\<newline>\<newline>'' @ text)"

section \<open>The ledger\<close>

definition ObjectIssue :: string where "ObjectIssue = ''issue''"
definition ObjectIssueComment :: string where "ObjectIssueComment = ''issue comment''"
definition ObjectPR :: string where "ObjectPR = ''pull request''"
definition ObjectPRComment :: string where "ObjectPRComment = ''pull request comment''"

type_synonym id = int

record metadata =
  eventId :: id
  url :: string
  title :: string
  description :: string
  author :: bool

record action =
  action :: string
  object :: string
  content :: string

record work =
  issues :: "id \<rightharpoonup> metadata"
  pulls :: "id \<rightharpoonup> metadata"
  actions :: "id \<rightharpoonup> action list"
  user :: string

text \<open>
  The payload objects of the event API, read through their nil-safe getters: a field holds
  the value its getter returns. \<open>issue_IsPullRequest\<close> is the result of
  \<open>Issue.IsPullRequest\<close>.
\<close>

record issue =
  issue_Number :: int
  issue_HTMLURL :: string
  issue_Title :: string
  issue_Body :: string
  issue_UserLogin :: string
  issue_IsPullRequest :: bool

record pull_request =
  pr_Number :: int
  pr_HTMLURL :: string
  pr_Title :: string
  pr_Body :: string
  pr_UserLogin :: string
  pr_Merged :: bool

definition addIssue :: "chat \<Rightarrow> nat \<Rightarrow> work \<Rightarrow> issue \<Rightarrow> work \<times> nat" where
  "addIssue llm n w iss =
     (let i = issue_Number iss in
      if issue_IsPullRequest iss then
        (if pulls w i \<noteq> None then (w, n)
         else (let (d, n') = descriptionSummary llm n (issue_Body iss) in
               (w\<lparr>pulls := (pulls w)(i \<mapsto>
                    \<lparr>eventId = i, url = issue_HTMLURL iss, title = issue_Title iss,
                     description = d, author = (issue_UserLogin iss = user w)\<rparr>)\<rparr>, n')))
      else
        (if issues w i \<noteq> None then (w, n)
         else (let (d, n') = descriptionSummary llm n (issue_Body iss) in
               (w\<lparr>issues := (issues w)(i \<mapsto>
                    \<lparr>eventId = i, url = issue_HTMLURL iss, title = issue_Title iss,
                     description = d, author = (issue_UserLogin iss = user w)\<rparr>)\<rparr>, n'))))"

definition addPullRequest :: "chat \<Rightarrow> nat \<Rightarrow> work \<Rightarrow> pull_request \<Rightarrow> work \<times> nat" where
  "addPullRequest llm n w pr =
     (let i = pr_Number pr in
      if pulls w i \<noteq> None then (w, n)
      else (let (d, n') = descriptionSummary llm n (pr_Body pr) in
            (w\<lparr>pulls := (pulls w)(i \<mapsto>
                 \<lparr>eventId = i, url = pr_HTMLURL pr, title = pr_Title pr,
                  description = d, author = (pr_UserLogin pr = user w)\<rparr>)\<rparr>, n')))"

definition getAction :: "work \<Rightarrow> id \<Rightarrow> action list" where
  "getAction w i = (case actions w i of None \<Rightarrow> [] | Some as \<Rightarrow> as)"

definition addAction :: "work \<Rightarrow> id \<Rightarrow> action \<Rightarrow> work" where
  "addAction w i a = w\<lparr>actions := (actions w)(i \<mapsto> getAction w i @ [a])\<rparr>"

definition getIssue :: "work \<Rightarrow> id \<Rightarrow> metadata option" where
  "getIssue w i = issues w i"

definition getPR :: "work \<Rightarrow> id \<Rightarrow> metadata option" where
  "getPR w i = pulls w i"

definition getIssueOrPR :: "work \<Rightarrow> id \<Rightarrow> metadata option" where
  "getIssueOrPR w i =
     (case issues w i of Some m \<Rightarrow> Some m | None \<Rightarrow> pulls w i)"

definition newWork :: "string \<Rightarrow> work" where
  "newWork login = \<lparr>issues = Map.empty, pulls = Map.empty, actions = Map.empty, user = login\<rparr>"

section \<open>Classifying events\<close>

text \<open>
  The parsed payload of an event, one constructor per case of the type switch of
  \<open>handleEvent\<close>; \<open>OtherPayload\<close> is its default case (any other payload type, or none).
  The first string of a classified payload is the event's action; the last string of a
  comment or review payload is the body of the comment or review. An event whose payload
  belongs to one of the five classified kinds carries its issue or pull request.

  \<open>handleEvent\<close> prints a line when the payload does not parse and another in its default
  case, and goes on; the lines printed are not part of the model.
\<close>

datatype payload =
    IssuesEvent string issue
  | PullRequestEvent string pull_request
  | IssueCommentEvent string issue string
  | PullRequestReviewEvent string pull_request string
  | PullRequestReviewCommentEvent string pull_request string
  | CommitCommentEvent
  | CreateEvent
  | DeleteEvent
  | MilestoneEvent
  | PackageEvent
  | PushEvent
  | ReleaseEvent
  | RepositoryEvent
  | RepositoryVulnerabilityAlertEvent
  | OtherPayload

fun handleEvent :: "chat \<Rightarrow> nat \<Rightarrow> work \<Rightarrow> payload \<Rightarrow> work \<times> nat" where
  "handleEvent llm n w (IssuesEvent act iss) =
     (let (w1, n1) = addIssue llm n w iss;
          (c, n2) = descriptionSummary llm n1 (issue_Body iss)
      in (addAction w1 (issue_Number iss)
            \<lparr>action = act, object = ObjectIssue, content = c\<rparr>, n2))"
| "handleEvent llm n w (PullRequestEvent act pr) =
     (let realAction =
            (if act = ''closed''
             then (if pr_Merged pr then ''merged'' else ''closed'')
             else act);
          (w1, n1) = addPullRequest llm n w pr;
          (c, n2) = descriptionSummary llm n1 (pr_Body pr)
      in (addAction w1 (pr_Number pr)
            \<lparr>action = realAction, object = ObjectPR, content = c\<rparr>, n2))"
| "handleEvent llm n w (IssueCommentEvent act iss body) =
     (let (w1, n1) = addIssue llm n w iss;
          (c, n2) = descriptionSummary llm n1 body
      in (addAction w1 (issue_Number iss)
            \<lparr>action = act, object = ObjectIssueComment, content = c\<rparr>, n2))"
| "handleEvent llm n w (PullRequestReviewEvent act pr body) =
     (let (w1, n1) = addPullRequest llm n w pr;
          (c, n2) = descriptionSummary llm n1 body
      in (addAction w1 (pr_Number pr)
            \<lparr>action = act, object = ObjectPRComment, content = c\<rparr>, n2))"
| "handleEvent llm n w (PullRequestReviewCommentEvent act pr body) =
     (let (w1, n1) = addPullRequest llm n w pr;
          (c, n2) = descriptionSummary llm n1 body
      in (addAction w1 (pr_Number pr)
            \<lparr>action = act, object = ObjectPRComment, content = c\<rparr>, n2))"
| "handleEvent llm n w _ = (w, n)"

text \<open>The events that \<open>main\<close> hands to \<open>handleEvent\<close>, one after the other.\<close>

fun handleEvents :: "chat \<Rightarrow> nat \<Rightarrow> work \<Rightarrow> payload list \<Rightarrow> work \<times> nat" where
  "handleEvents llm n w [] = (w, n)"
| "handleEvents llm n w (p # ps) =
     (let (w', n') = handleEvent llm n w p in handleEvents llm n' w' ps)"

section \<open>Dates\<close>

text \<open>
  An instant of the \<open>time\<close> package, as the reading of the wall clock of its location:
  the calendar day as a count of days since 1 January 1970 and the time of day as
  nanoseconds since midnight. \<open>Weekday\<close> counts from Sunday = 0, as the package does;
  1 January 1970 was a Thursday.

  A location gives, for a day and a time of day asked for, the time of day its clock shows.
  That is the time asked for, except in a gap of the clock (the hour left out when the
  clock is set forward), where \<open>Date\<close> moves the time out of the gap. The day stays as it is.
  \<open>Before\<close> compares readings of the wall clock.
\<close>

type_synonym location = "int \<Rightarrow> nat \<Rightarrow> nat"

record time =
  day :: int
  clock :: nat
  Location :: location

definition wall :: "location \<Rightarrow> int \<Rightarrow> nat \<Rightarrow> time" where
  "wall loc d c = \<lparr>day = d, clock = loc d c, Location = loc\<rparr>"

definition Sunday :: int where "Sunday = 0"
definition Monday :: int where "Monday = 1"

definition Weekday :: "time \<Rightarrow> int" where
  "Weekday t = (day t + 4) mod 7"

text \<open>
  The proleptic Gregorian calendar: year, month and day of a day count, and back. \<open>Date\<close>
  accepts a month outside 1..12 and a day outside the month and normalises them, and
  \<open>AddDate\<close> goes through \<open>Date\<close> in the location of its instant, with the time of day
  of that instant; with no years and months to add, the day asked for is a shift of the
  day count. The hour, minute, second and nanosecond given to \<open>Date\<close> are in range
  (\<open>pickDate\<close> passes zeros).
\<close>

definition civil :: "int \<Rightarrow> int \<times> int \<times> int" where
  "civil z0 =
     (let z = z0 + 719468;
          era = z div 146097;
          doe = z - era * 146097;
          yoe = (doe - doe div 1460 + doe div 36524 - doe div 146096) div 365;
          doy = doe - (365 * yoe + yoe div 4 - yoe div 100);
          mp = (5 * doy + 2) div 153;
          d = doy - (153 * mp + 2) div 5 + 1;
          m = (if mp < 10 then mp + 3 else mp - 9);
          y = yoe + era * 400
      in (if m \<le> 2 then y + 1 else y, m, d))"

definition daysFromCivil :: "int \<Rightarrow> int \<Rightarrow> int \<Rightarrow> int" where
  "daysFromCivil y0 m d =
     (let y = (if m \<le> 2 then y0 - 1 else y0);
          era = y div 400;
          yoe = y - era * 400;
          doy = (153 * (if m > 2 then m - 3 else m + 9) + 2) div 5 + d - 1;
          doe = yoe * 365 + yoe div 4 - yoe div 100 + doy
      in era * 146097 + doe - 719468)"

definition Year :: "time \<Rightarrow> int" where
  "Year t = fst (civil (day t))"

definition Month :: "time \<Rightarrow> int" where
  "Month t = fst (snd (civil (day t)))"

definition Day :: "time \<Rightarrow> int" where
  "Day t = snd (snd (civil (day t)))"

definition civilDay :: "int \<Rightarrow> int \<Rightarrow> int \<Rightarrow> int" where
  "civilDay year month d =
     daysFromCivil (year + (month - 1) div 12) ((month - 1) mod 12 + 1) 1 + (d - 1)"

definition Date ::
  "int \<Rightarrow> int \<Rightarrow> int \<Rightarrow> nat \<Rightarrow> nat \<Rightarrow> nat \<Rightarrow> nat \<Rightarrow> location \<Rightarrow> time" where
  "Date year month d hour minute sec nsec loc =
     wall loc (civilDay year month d) (((hour * 60 + minute) * 60 + sec) * 1000000000 + nsec)"

definition AddDate :: "time \<Rightarrow> int \<Rightarrow> int \<Rightarrow> int \<Rightarrow> time" where
  "AddDate t years months days =
     (if years = 0 \<and> months = 0 then wall (Location t) (day t + days) (clock t)
      else wall (Location t) (civilDay (Year t + years) (Month t + months) (Day t + days))
             (clock t))"

definition Before :: "time \<Rightarrow> time \<Rightarrow> bool" where
  "Before t u \<longleftrightarrow> day t < day u \<or> (day t = day u \<and> clock t < clock u)"

text \<open>
  \<open>pickDate\<close> reads the clock once, in the branch it takes; \<open>now\<close> is what
  \<open>time.Now\<close> returns there.
\<close>

datatype error = Error string

definition pickDate :: "time \<Rightarrow> string \<Rightarrow> error + time" where
  "pickDate now arg =
     (if arg = ''today'' then Inr now
      else if arg = ''yesterday'' then Inr (AddDate now 0 0 (- 1))
      else if arg = ''last-3days'' then Inr (AddDate now 0 0 (- 3))
      else if arg = ''this-week'' then
        (let today = now;
             offset = Weekday today - Monday;
             offset = (if offset < 0 then offset + 7 else offset)
         in Inr (AddDate today 0 0 (- offset)))
      else if arg = ''last-week'' then
        (let today = now;
             offset = Weekday today + 6
         in Inr (AddDate today 0 0 (- offset)))
      else if arg = ''this-month'' then
        (let today = now
         in Inr (Date (Year today) (Month today) 1 0 0 0 0 (Location today)))
      else if arg = ''last-month'' then
        (let today = now;
             firstOfThisMonth = Date (Year today) (Month today) 1 0 0 0 0 (Location today)
         in Inr (AddDate firstOfThisMonth 0 (- 1) 0))
      else Inl (Error ''invalid argument''))"

section \<open>Reading the events\<close>

text \<open>
  \<open>ToLower\<close> and \<open>Contains\<close> of the \<open>strings\<close> package, for strings of ASCII characters
  (owner and repository names are): the letters A to Z are mapped to a to z and every
  other character is kept.
\<close>

definition isUpper :: "char \<Rightarrow> bool" where
  "isUpper c \<longleftrightarrow> 65 \<le> (of_char c :: nat) \<and> (of_char c :: nat) \<le> 90"

definition lowerChar :: "char \<Rightarrow> char" where
  "lowerChar c = (if isUpper c then char_of ((of_char c :: nat) + 32) else c)"

definition ToLower :: "string \<Rightarrow> string" where
  "ToLower s = map lowerChar s"

definition Contains :: "string \<Rightarrow> string \<Rightarrow> bool" where
  "Contains s substr \<longleftrightarrow>
     list_ex (\<lambda>i. take (length substr) (drop i s) = substr) [0..<Suc (length s)]"

text \<open>
  The checks \<open>main\<close> makes on its arguments, after it has read its three environment
  variables and before it contacts any service. Each exit is a
  value; \<open>IndexOutOfRange\<close> is the panic of reading \<open>args[2]\<close> when only two arguments were
  given. The result holds the summary type, the repository filter and the begin date.
\<close>

datatype exit =
    Usage
  | InvalidSummaryType string
  | IndexOutOfRange
  | InvalidOwnerRepo string
  | InvalidDate error

definition mainArgs :: "time \<Rightarrow> string list \<Rightarrow> exit + string \<times> string \<times> time" where
  "mainArgs now args =
     (if length args < 2 then Inl Usage
      else
        (let summaryType = args ! 1 in
         if summaryType \<noteq> ''executive'' \<and> summaryType \<noteq> ''technical''
            \<and> summaryType \<noteq> ''detailed''
         then Inl (InvalidSummaryType summaryType)
         else if length args < 3 then Inl IndexOutOfRange
         else
           (let wantedRepo = args ! 2;
                wantedRepo = (if wantedRepo \<noteq> [] then ToLower wantedRepo else wantedRepo)
            in if wantedRepo \<noteq> [] \<and> \<not> Contains wantedRepo ''/''
               then Inl (InvalidOwnerRepo wantedRepo)
               else (case pickDate now (args ! 0) of
                       Inl err \<Rightarrow> Inl (InvalidDate err)
                     | Inr beginDate \<Rightarrow> Inr (summaryType, wantedRepo, beginDate)))))"

record event =
  createdAt :: time
  repoName :: string
  payload :: payload

text \<open>
  The loop of \<open>main\<close> over one page of events: it leaves the page at the first event
  created before the begin date, and skips an event of another repository when a
  repository is wanted.
\<close>

fun handlePage :: "chat \<Rightarrow> time \<Rightarrow> string \<Rightarrow> nat \<Rightarrow> work \<Rightarrow> event list \<Rightarrow> work \<times> nat" where
  "handlePage llm beginDate wantedRepo n w [] = (w, n)"
| "handlePage llm beginDate wantedRepo n w (e # es) =
     (if Before (createdAt e) beginDate then (w, n)
      else if wantedRepo \<noteq> [] \<and> repoName e \<noteq> wantedRepo
        then handlePage llm beginDate wantedRepo n w es
      else (let (w', n') = handleEvent llm n w (payload e)
            in handlePage llm beginDate wantedRepo n' w' es))"

section \<open>The report\<close>

text \<open>The verbs \<open>%d\<close> and \<open>%t\<close> of \<open>Sprintf\<close>.\<close>

fun formatNat :: "nat \<Rightarrow> string" where
  "formatNat n =
     (if n < 10 then [char_of (48 + n)]
      else formatNat (n div 10) @ [char_of (48 + n mod 10)])"

definition formatInt :: "int \<Rightarrow> string" where
  "formatInt i = (if i < 0 then CHR ''-'' # formatNat (nat (- i)) else formatNat (nat i))"

definition formatBool :: "bool \<Rightarrow> string" where
  "formatBool b = (if b then ''true'' else ''false'')"

text \<open>The prompts.\<close>

definition actionSummaryString :: string where
  "actionSummaryString =
     ''\<newline>'' @
     ''You will be given a summary of a GitHub Issue or PR and a series of actions made\<newline>'' @
     ''by me on it. They will be in the form of:\<newline>'' @
     ''\<newline>'' @
     ''Summary of the issue or PR (check URL string to see if it is an issue or PR)\<newline>'' @
     ''-\<newline>'' @
     ''Author: true or false (if I'm the author of the issue or PR)\<newline>'' @
     ''-\<newline>'' @
     ''Action: create, edit, delete, etc.\<newline>'' @
     ''Object: issue, pull request, issue comment, pull request comment/review.\<newline>'' @
     ''Content: description.\<newline>'' @
     ''-\<newline>'' @
     ''...\<newline>'' @
     ''\<newline>'' @
     ''Your job is to describe what I did in this issue, or pull request, taking into\<newline>'' @
     ''consideration the issue description AND the series of actions, objects and\<newline>'' @
     ''description given in the form above.\<newline>'' @
     ''\<newline>'' @
     ''Note: I'm creading issues and pull requests, but I'm also commenting in other\<newline>'' @
     ''people's issues and pull requests (and sometimes replying above quoted text).\<newline>'' @
     ''So, you should be able to differentiate whether I'm the author of the issue or\<newline>'' @
     ''PR, or if I'm just commenting on it (or reviewing it).\<newline>''"

definition timecardSummaryString :: string where
  "timecardSummaryString =
     ''\<newline>'' @
     ''You will be given a complete report of all the issues and pull requests I\<newline>'' @
     ''created or commented on in a certain period of time. The report will be in the\<newline>'' @
     ''form of:\<newline>'' @
     ''\<newline>'' @
     ''Issues:\<newline>'' @
     ''Issue: number (URL) title\<newline>'' @
     ''Description: summary of what I did in the issue\<newline>'' @
     ''Issue:\<newline>'' @
     ''...\<newline>'' @
     ''\<newline>'' @
     ''Pulls:\<newline>'' @
     ''PR: number (URL) title\<newline>'' @
     ''Description: summary of what I did in the pull request\<newline>'' @
     ''PR:\<newline>'' @
     ''...\<newline>''"

definition timecardSummaryExecutive :: string where
  "timecardSummaryExecutive =
     ''\<newline>'' @
     ''Provide an executive summary of the report below. Don't try to sell yourself,\<newline>'' @
     ''just provide the facts. Differentiate between features, fixes or chores. The\<newline>'' @
     ''executive summary should be no more than 3-4 sentences.\<newline>''"

definition timecardSummaryTechnical :: string where
  "timecardSummaryTechnical =
     ''\<newline>'' @
     ''Provide a technical summary of the report below. Don't try to sell yourself,\<newline>'' @
     ''just provide the facts. The technical summary should be written in a technical\<newline>'' @
     ''language. Differentiate between features, fixes, docs, tests, management, ...\<newline>'' @
     ''Split the technical summary into sections, if needed. Use emojis to\<newline>'' @
     ''differentiate between sections.\<newline>''"

text \<open>
  \<open>actionInstr\<close> is the instruction that \<open>actionSummary\<close> builds for a work item.
  \<open>actionSummary\<close> dereferences what \<open>getIssueOrPR\<close> returns: for an id in neither map that
  is a nil pointer, and the run panics (\<open>None\<close>).
\<close>

definition actionInstr :: "work \<Rightarrow> id \<Rightarrow> metadata \<Rightarrow> string" where
  "actionInstr w i meta =
     (let instr = ''Summary of #'' @ formatInt (eventId meta) @ '' ('' @ url meta @ '') ''
                    @ title meta @ ''\<newline>-\<newline>'';
          instr = instr @ ''Author: '' @ formatBool (author meta) @ ''\<newline>-\<newline>'';
          instr = instr @ ''Description: '' @ description meta @ ''\<newline>-\<newline>'';
          instr = instr @ ''Actions: '' @ formatInt (int (length (getAction w i)))
                    @ ''\<newline>-\<newline>''
      in foldl (\<lambda>instr a. instr @ ''Action: '' @ action a @ ''\<newline>Object: '' @ object a
                  @ ''\<newline>Content: '' @ content a @ ''\<newline>-\<newline>'')
           instr (getAction w i))"

definition actionSummary :: "chat \<Rightarrow> nat \<Rightarrow> work \<Rightarrow> id \<Rightarrow> (string \<times> nat) option" where
  "actionSummary llm n w i =
     (let role = actionSummaryString in
      case getIssueOrPR w i of
        None \<Rightarrow> None
      | Some meta \<Rightarrow> Some (executeAI llm n role (actionInstr w i meta)))"

text \<open>
  The two report loops of \<open>main\<close>, which differ in the label of an entry (\<open>Issue\<close> or
  \<open>PR\<close>). A loop ranges over the values of a map; the order is the runtime's choice and is
  given here as the list of keys in the order they are visited.
\<close>

definition entryHeader :: "string \<Rightarrow> metadata \<Rightarrow> string" where
  "entryHeader label item =
     label @ '': #'' @ formatInt (eventId item) @ '' ('' @ url item @ '') '' @ title item
       @ ''\<newline>''"

fun reportEntries ::
  "string \<Rightarrow> chat \<Rightarrow> work \<Rightarrow> nat \<Rightarrow> string \<Rightarrow> metadata list \<Rightarrow> (string \<times> nat) option" where
  "reportEntries label llm w n report [] = Some (report, n)"
| "reportEntries label llm w n report (item # rest) =
     (case actionSummary llm n w (eventId item) of
        None \<Rightarrow> None
      | Some (result, n') \<Rightarrow>
          reportEntries label llm w n'
            (report @ entryHeader label item @ ''Description: '' @ result @ ''\<newline>'') rest)"

definition createReport :: "chat \<Rightarrow> nat \<Rightarrow> work \<Rightarrow> id list \<Rightarrow> id list \<Rightarrow> (string \<times> nat) option" where
  "createReport llm n w issueOrder pullOrder =
     (case reportEntries ''Issue'' llm w n ''\<newline>Issues:\<newline>\<newline>''
             (List.map_filter (issues w) issueOrder) of
        None \<Rightarrow> None
      | Some (report, n') \<Rightarrow>
          reportEntries ''PR'' llm w n' (report @ ''\<newline>Pulls:\<newline>\<newline>'')
            (List.map_filter (pulls w) pullOrder))"

definition timecardSummary :: "chat \<Rightarrow> nat \<Rightarrow> string \<Rightarrow> string \<Rightarrow> string \<times> nat" where
  "timecardSummary llm n summaryType report =
     (let role = timecardSummaryString;
          role = (if summaryType = ''executive'' then role @ timecardSummaryExecutive
                  else if summaryType = ''technical'' then role @ timecardSummaryTechnical
                  else if summaryType = ''detailed''
                    then role @ timecardSummaryExecutive @ timecardSummaryTechnical
                  else role)
      in executeAI llm n role report)"

section \<open>Vocabulary of the claims\<close>

text \<open>
  What the claims call the target map of an event, the work item an event references and the
  verb and object kind it is recorded with. Events of the ignored kinds reference nothing.
\<close>

datatype target = IssuesMap | PullsMap

fun upsertTarget :: "payload \<Rightarrow> (target \<times> id) option" where
  "upsertTarget (IssuesEvent act iss) =
     Some (if issue_IsPullRequest iss then PullsMap else IssuesMap, issue_Number iss)"
| "upsertTarget (PullRequestEvent act pr) = Some (PullsMap, pr_Number pr)"
| "upsertTarget (IssueCommentEvent act iss body) =
     Some (if issue_IsPullRequest iss then PullsMap else IssuesMap, issue_Number iss)"
| "upsertTarget (PullRequestReviewEvent act pr body) = Some (PullsMap, pr_Number pr)"
| "upsertTarget (PullRequestReviewCommentEvent act pr body) = Some (PullsMap, pr_Number pr)"
| "upsertTarget _ = None"

definition refId :: "payload \<Rightarrow> id option" where
  "refId p = map_option snd (upsertTarget p)"

fun verbObject :: "payload \<Rightarrow> string \<times> string" where
  "verbObject (IssuesEvent act iss) = (act, ''issue'')"
| "verbObject (PullRequestEvent act pr) =
     (if act = ''closed'' then (if pr_Merged pr then ''merged'' else ''closed'') else act,
      ''pull request'')"
| "verbObject (IssueCommentEvent act iss body) = (act, ''issue comment'')"
| "verbObject (PullRequestReviewEvent act pr body) = (act, ''pull request comment'')"
| "verbObject (PullRequestReviewCommentEvent act pr body) = (act, ''pull request comment'')"
| "verbObject _ = ([], [])"

fun idsInto :: "target \<Rightarrow> payload list \<Rightarrow> id list" where
  "idsInto t [] = []"
| "idsInto t (p # ps) =
     (case upsertTarget p of
        None \<Rightarrow> idsInto t ps
      | Some (t', i) \<Rightarrow> if t' = t then i # idsInto t ps else idsInto t ps)"

definition disjointMaps :: "work \<Rightarrow> bool" where
  "disjointMaps w \<longleftrightarrow> dom (issues w) \<inter> dom (pulls w) = {}"

text \<open>Two summarizers and some payloads for the concrete runs below.\<close>

definition noAnswer :: chat where
  "noAnswer n role instr = (None, Some ''empty response'')"

definition echo :: chat where
  "echo n role instr = (Some instr, None)"

definition issue5 :: issue where
  "issue5 = \<lparr>issue_Number = 5, issue_HTMLURL = ''https://github.com/a/x/issues/5'',
     issue_Title = ''Crash on start'', issue_Body = ''It crashes.'',
     issue_UserLogin = ''alice'', issue_IsPullRequest = False\<rparr>"

definition pull5 :: pull_request where
  "pull5 = \<lparr>pr_Number = 5, pr_HTMLURL = ''https://github.com/a/y/pull/5'',
     pr_Title = ''Add flag'', pr_Body = ''Adds a flag.'',
     pr_UserLogin = ''bob'', pr_Merged = False\<rparr>"
definition pull42 :: pull_request where
  "pull42 = \<lparr>pr_Number = 42, pr_HTMLURL = ''https://github.com/a/x/pull/42'',
     pr_Title = ''Fix crash'', pr_Body = ''Fixes the crash.'',
     pr_UserLogin = ''alice'', pr_Merged = True\<rparr>"

definition issue10 :: issue where
  "issue10 = \<lparr>issue_Number = 10, issue_HTMLURL = ''https://github.com/a/x/issues/10'',
     issue_Title = ''Docs'', issue_Body = ''Missing docs.'',
     issue_UserLogin = ''alice'', issue_IsPullRequest = False\<rparr>"

definition flagged7 :: issue where
  "flagged7 = \<lparr>issue_Number = 7, issue_HTMLURL = ''https://github.com/a/x/pull/7'',
     issue_Title = ''Refactor'', issue_Body = ''Refactors.'',
     issue_UserLogin = ''bob'', issue_IsPullRequest = True\<rparr>"

definition pullFirst :: work where
  "pullFirst = fst (addPullRequest echo 0 (newWork ''alice'') pull5)"

definition issueFirst :: work where
  "issueFirst = fst (addIssue echo 0 (newWork ''alice'') issue5)"

text \<open>
  A location whose clock never changes, and one whose clock is set forward by an hour at
  midnight of Monday 22 March 2021 (day 18708), as the clock of Tehran was.
\<close>

definition fixedZone :: location where
  "fixedZone d c = c"


definition tuesday1430 :: time where
  "tuesday1430 = \<lparr>day = 19675, clock = 52200000000000, Location = fixedZone\<rparr>"

definition sunday1430 :: time where
  "sunday1430 = \<lparr>day = 19680, clock = 52200000000000, Location = fixedZone\<rparr>"



definition failOn :: "nat \<Rightarrow> chat" where
  "failOn k n role instr = (if n = k then (None, Some ''timeout'') else (Some ''ok'', None))"

definition twoItems :: work where
  "twoItems = fst (handleEvents (failOn 100) 0 (newWork ''alice'')
                [IssuesEvent ''opened'' issue5, PullRequestEvent ''closed'' pull42])"

definition mixedCaseEvent :: event where
  "mixedCaseEvent = \<lparr>createdAt = tuesday1430, repoName = ''Rafaeldtinoco/GHTimecardator'',
     payload = IssuesEvent ''opened'' issue10\<rparr>"

text \<open>Every record of the ledger is stored under its own number.\<close>

definition keyed :: "work \<Rightarrow> bool" where
  "keyed w \<longleftrightarrow>
     (\<forall>i m. issues w i = Some m \<longrightarrow> eventId m = i) \<and>
     (\<forall>i m. pulls w i = Some m \<longrightarrow> eventId m = i)"

definition issue5Meta :: metadata where
  "issue5Meta = \<lparr>eventId = 5, url = ''https://github.com/a/x/issues/5'',
     title = ''Crash on start'', description = ''ok'', author = True\<rparr>"

definition pull42Meta :: metadata where
  "pull42Meta = \<lparr>eventId = 42, url = ''https://github.com/a/x/pull/42'',
     title = ''Fix crash'', description = ''ok'', author = True\<rparr>"

section \<open>Properties of the ledger\<close>

lemma executeAI_calls: "snd (executeAI llm n role instr) = Suc n"
  by (simp add: executeAI_def split: option.splits)

lemma addIssue_actions [simp]: "actions (fst (addIssue llm n w iss)) = actions w"
  by (simp add: addIssue_def Let_def split_beta)

lemma addIssue_user [simp]: "user (fst (addIssue llm n w iss)) = user w"
  by (simp add: addIssue_def Let_def split_beta)

lemma addPullRequest_actions [simp]: "actions (fst (addPullRequest llm n w pr)) = actions w"
  by (simp add: addPullRequest_def Let_def split_beta)

lemma addPullRequest_user [simp]: "user (fst (addPullRequest llm n w pr)) = user w"
  by (simp add: addPullRequest_def Let_def split_beta)

lemma addPullRequest_issues [simp]: "issues (fst (addPullRequest llm n w pr)) = issues w"
  by (simp add: addPullRequest_def Let_def split_beta)

lemma addPullRequest_dom_pulls [simp]:
  "dom (pulls (fst (addPullRequest llm n w pr))) = insert (pr_Number pr) (dom (pulls w))"
  by (auto simp add: addPullRequest_def Let_def split_beta split: if_splits)

lemma addIssue_issues_flagged [simp]:
  "issue_IsPullRequest iss \<Longrightarrow> issues (fst (addIssue llm n w iss)) = issues w"
  by (simp add: addIssue_def Let_def split_beta)

lemma addIssue_pulls_unflagged [simp]:
  "\<not> issue_IsPullRequest iss \<Longrightarrow> pulls (fst (addIssue llm n w iss)) = pulls w"
  by (simp add: addIssue_def Let_def split_beta)

lemma addIssue_dom_issues [simp]:
  "dom (issues (fst (addIssue llm n w iss))) =
     (if issue_IsPullRequest iss then dom (issues w)
      else insert (issue_Number iss) (dom (issues w)))"
  by (auto simp add: addIssue_def Let_def split_beta split: if_splits)

lemma addIssue_dom_pulls [simp]:
  "dom (pulls (fst (addIssue llm n w iss))) =
     (if issue_IsPullRequest iss then insert (issue_Number iss) (dom (pulls w))
      else dom (pulls w))"
  by (auto simp add: addIssue_def Let_def split_beta split: if_splits)

lemma addAction_issues [simp]: "issues (addAction w i a) = issues w"
  by (simp add: addAction_def)

lemma addAction_pulls [simp]: "pulls (addAction w i a) = pulls w"
  by (simp add: addAction_def)

lemma addAction_user [simp]: "user (addAction w i a) = user w"
  by (simp add: addAction_def)

lemma getAction_addAction:
  "getAction (addAction w i a) j = (if j = i then getAction w i @ [a] else getAction w j)"
  by (simp add: addAction_def getAction_def)

lemma getAction_addIssue [simp]: "getAction (fst (addIssue llm n w iss)) i = getAction w i"
  by (simp add: getAction_def)

lemma getAction_addPullRequest [simp]:
  "getAction (fst (addPullRequest llm n w pr)) i = getAction w i"
  by (simp add: getAction_def)

lemma getAction_newWork [simp]: "getAction (newWork u) i = []"
  by (simp add: getAction_def newWork_def)

lemma handleEvent_dom_issues:
  "dom (issues (fst (handleEvent llm n w p))) =
     dom (issues w) \<union> set (idsInto IssuesMap [p])"
  by (cases p) (auto simp add: Let_def split_beta)

lemma handleEvent_dom_pulls:
  "dom (pulls (fst (handleEvent llm n w p))) =
     dom (pulls w) \<union> set (idsInto PullsMap [p])"
  by (cases p) (auto simp add: Let_def split_beta)

lemma idsInto_Cons: "set (idsInto t (p # ps)) = set (idsInto t [p]) \<union> set (idsInto t ps)"
  by (simp split: option.splits)

lemma handleEvents_dom_issues:
  "dom (issues (fst (handleEvents llm n w ps))) = dom (issues w) \<union> set (idsInto IssuesMap ps)"
proof (induction ps arbitrary: n w)
  case Nil
  show ?case by simp
next
  case (Cons p ps)
  have "dom (issues (fst (handleEvents llm n w (p # ps)))) =
        dom (issues (fst (handleEvent llm n w p))) \<union> set (idsInto IssuesMap ps)"
    by (simp add: split_beta Cons.IH)
  also have "\<dots> = dom (issues w) \<union> (set (idsInto IssuesMap [p]) \<union> set (idsInto IssuesMap ps))"
    by (simp only: handleEvent_dom_issues Un_assoc)
  finally show ?case
    by (simp only: idsInto_Cons [of IssuesMap p ps])
qed

lemma handleEvents_dom_pulls:
  "dom (pulls (fst (handleEvents llm n w ps))) = dom (pulls w) \<union> set (idsInto PullsMap ps)"
proof (induction ps arbitrary: n w)
  case Nil
  show ?case by simp
next
  case (Cons p ps)
  have "dom (pulls (fst (handleEvents llm n w (p # ps)))) =
        dom (pulls (fst (handleEvent llm n w p))) \<union> set (idsInto PullsMap ps)"
    by (simp add: split_beta Cons.IH)
  also have "\<dots> = dom (pulls w) \<union> (set (idsInto PullsMap [p]) \<union> set (idsInto PullsMap ps))"
    by (simp only: handleEvent_dom_pulls Un_assoc)
  finally show ?case
    by (simp only: idsInto_Cons [of PullsMap p ps])
qed

text \<open>
  C1, as amended. The claim says that, whatever the events, no id ends up in both \<open>issues\<close>
  and \<open>pulls\<close>. Neither \<open>addIssue\<close> nor \<open>addPullRequest\<close> looks at the other map, so
  that holds exactly for the streams in which no id is referenced both by an event whose
  upsert goes to \<open>issues\<close> and by one whose upsert goes to \<open>pulls\<close>: starting from the
  empty ledger, the maps are disjoint if and only if those two sets of ids are.
\<close>

theorem ids_in_one_map_iff:
  "disjointMaps (fst (handleEvents llm n (newWork u) ps)) \<longleftrightarrow>
     set (idsInto IssuesMap ps) \<inter> set (idsInto PullsMap ps) = {}"
  by (simp add: disjointMaps_def handleEvents_dom_issues handleEvents_dom_pulls newWork_def)

text \<open>A run of C1's amended statement: an issue 5, an ignored event and a pull request 6.\<close>

theorem ids_in_one_map_iff_witness:
  "disjointMaps (fst (handleEvents echo 0 (newWork ''alice'')
      [IssuesEvent ''opened'' issue5, CreateEvent,
       PullRequestEvent ''opened'' (pull5\<lparr>pr_Number := 6\<rparr>)]))"
  using ids_in_one_map_iff [of echo 0 "''alice''"
      "[IssuesEvent ''opened'' issue5, CreateEvent,
        PullRequestEvent ''opened'' (pull5\<lparr>pr_Number := 6\<rparr>)]"]
  by (simp add: issue5_def pull5_def)

text \<open>
  C1 as stated fails: an issue event for issue 5 of one repository followed by a pull
  request event for pull request 5 of another leaves 5 in both maps.
\<close>

theorem same_id_in_both_maps:
  "\<not> disjointMaps (fst (handleEvents noAnswer 0 (newWork ''alice'')
      [IssuesEvent ''opened'' issue5, PullRequestEvent ''opened'' pull5]))"
  unfolding disjointMaps_def handleEvents_dom_issues handleEvents_dom_pulls
  by (simp add: newWork_def issue5_def pull5_def)

lemma addIssue_present:
  "(if issue_IsPullRequest iss then pulls w else issues w) (issue_Number iss) \<noteq> None \<Longrightarrow>
     addIssue llm n w iss = (w, n)"
  by (auto simp add: addIssue_def Let_def)

lemma addPullRequest_present:
  "pulls w (pr_Number pr) \<noteq> None \<Longrightarrow> addPullRequest llm n w pr = (w, n)"
  by (auto simp add: addPullRequest_def Let_def)

lemma addIssue_target_after:
  "(if issue_IsPullRequest iss then pulls (fst (addIssue llm n w iss))
    else issues (fst (addIssue llm n w iss))) (issue_Number iss) \<noteq> None"
  by (auto simp add: addIssue_def Let_def split_beta)

lemma addPullRequest_target_after:
  "pulls (fst (addPullRequest llm n w pr)) (pr_Number pr) \<noteq> None"
  by (auto simp add: addPullRequest_def Let_def split_beta)

lemma addIssue_keeps_issues:
  "issues w i = Some m \<Longrightarrow> issues (fst (addIssue llm n w iss)) i = Some m"
  by (auto simp add: addIssue_def Let_def split_beta)

lemma addIssue_keeps_pulls:
  "pulls w i = Some m \<Longrightarrow> pulls (fst (addIssue llm n w iss)) i = Some m"
  by (auto simp add: addIssue_def Let_def split_beta)

lemma addPullRequest_keeps_pulls:
  "pulls w i = Some m \<Longrightarrow> pulls (fst (addPullRequest llm n w pr)) i = Some m"
  by (auto simp add: addPullRequest_def Let_def split_beta)

text \<open>
  C4, as amended. An upsert is first-write-wins for the map it targets: when the id is
  already in that map (\<open>pulls\<close> for a pull request or an issue flagged as one, \<open>issues\<close>
  otherwise) the ledger and the number of summarizer calls are returned as they were. So
  upserting the same work item a second time changes nothing, whatever the summarizer would
  answer. In every case the entries already stored in \<open>issues\<close> and in \<open>pulls\<close> stay as
  they are.
\<close>

theorem upsert_first_write_wins:
  "((if issue_IsPullRequest iss then pulls w else issues w) (issue_Number iss) \<noteq> None \<longrightarrow>
      addIssue llm n w iss = (w, n))
   \<and> (pulls w (pr_Number pr) \<noteq> None \<longrightarrow> addPullRequest llm n w pr = (w, n))
   \<and> addIssue llm' n' (fst (addIssue llm n w iss)) iss = (fst (addIssue llm n w iss), n')
   \<and> addPullRequest llm' n' (fst (addPullRequest llm n w pr)) pr =
       (fst (addPullRequest llm n w pr), n')
   \<and> (issues w i = Some m \<longrightarrow>
        issues (fst (addIssue llm n w iss)) i = Some m
      \<and> issues (fst (addPullRequest llm n w pr)) i = Some m)
   \<and> (pulls w i = Some m \<longrightarrow>
        pulls (fst (addIssue llm n w iss)) i = Some m
      \<and> pulls (fst (addPullRequest llm n w pr)) i = Some m)"
proof -
  have twice_issue:
    "addIssue llm' n' (fst (addIssue llm n w iss)) iss = (fst (addIssue llm n w iss), n')"
    by (rule addIssue_present) (rule addIssue_target_after)
  have twice_pull:
    "addPullRequest llm' n' (fst (addPullRequest llm n w pr)) pr =
       (fst (addPullRequest llm n w pr), n')"
    by (rule addPullRequest_present) (rule addPullRequest_target_after)
  show ?thesis
    using twice_issue twice_pull
    by (simp add: addIssue_present addPullRequest_present addIssue_keeps_issues
        addIssue_keeps_pulls addPullRequest_keeps_pulls)
qed

text \<open>
  A run of C4's amended statement: issue 5 is stored, then upserted again with an edited
  title and another author; the ledger keeps the first title, author flag and description.
\<close>

theorem upsert_first_write_wins_witness:
  "issues issueFirst 5 \<noteq> None
   \<and> addIssue noAnswer 1 issueFirst
        (issue5\<lparr>issue_Title := ''Edited'', issue_UserLogin := ''bob''\<rparr>) = (issueFirst, 1)
   \<and> map_option title (issues issueFirst 5) = Some ''Crash on start''
   \<and> map_option author (issues issueFirst 5) = Some True
   \<and> map_option description (issues issueFirst 5) =
        Some ''Rewrite description below in couple of lines:\<newline>\<newline>It crashes.''"
proof -
  have present: "issues issueFirst 5 \<noteq> None"
    by (simp add: issueFirst_def addIssue_def issue5_def newWork_def split_beta)
  have "addIssue noAnswer 1 issueFirst
        (issue5\<lparr>issue_Title := ''Edited'', issue_UserLogin := ''bob''\<rparr>) = (issueFirst, 1)"
    using present
      upsert_first_write_wins [of "issue5\<lparr>issue_Title := ''Edited'', issue_UserLogin := ''bob''\<rparr>"
        issueFirst noAnswer 1]
    by (simp add: issue5_def)
  moreover have "map_option title (issues issueFirst 5) = Some ''Crash on start''
   \<and> map_option author (issues issueFirst 5) = Some True
   \<and> map_option description (issues issueFirst 5) =
        Some ''Rewrite description below in couple of lines:\<newline>\<newline>It crashes.''"
    by (simp add: issueFirst_def addIssue_def issue5_def newWork_def split_beta
        descriptionSummary_def executeAI_def echo_def)
  ultimately show ?thesis using present by blast
qed

text \<open>
  C4 as stated fails: with 5 already in \<open>pulls\<close>, upserting an issue 5 that is not flagged
  as a pull request is no no-op. It adds 5 to \<open>issues\<close>, and the record that
  \<open>getIssueOrPR\<close> finds for 5 is a different one afterwards.
\<close>

theorem upsert_into_other_map:
  "5 \<in> dom (issues pullFirst) \<union> dom (pulls pullFirst)
   \<and> fst (addIssue echo 1 pullFirst issue5) \<noteq> pullFirst
   \<and> map_option title (getIssueOrPR pullFirst 5) = Some ''Add flag''
   \<and> map_option title (getIssueOrPR (fst (addIssue echo 1 pullFirst issue5)) 5) =
        Some ''Crash on start''"
proof -
  have a: "5 \<in> dom (issues pullFirst) \<union> dom (pulls pullFirst)"
    by (simp add: pullFirst_def pull5_def)
  have b: "issues pullFirst 5 = None"
    by (simp add: pullFirst_def newWork_def)
  have c: "issues (fst (addIssue echo 1 pullFirst issue5)) 5 \<noteq> None"
    using addIssue_target_after [of issue5 echo 1 pullFirst] by (simp add: issue5_def)
  from b c have d: "fst (addIssue echo 1 pullFirst issue5) \<noteq> pullFirst"
    by auto
  have e: "map_option title (getIssueOrPR pullFirst 5) = Some ''Add flag''"
    by (simp add: getIssueOrPR_def b)
      (simp add: pullFirst_def addPullRequest_def pull5_def newWork_def split_beta)
  have f: "map_option title (getIssueOrPR (fst (addIssue echo 1 pullFirst issue5)) 5) =
        Some ''Crash on start''"
    by (simp add: getIssueOrPR_def addIssue_def issue5_def b split_beta)
  from a d e f show ?thesis by blast
qed

text \<open>
  C5. Handling a pull request event puts the pull request in \<open>pulls\<close> and appends one action
  of object kind pull request. Its verb is \<open>merged\<close> when the event's action is \<open>closed\<close>
  and the pull request's merged flag is set, \<open>closed\<close> when the action is \<open>closed\<close> and the
  flag is not set, and the event's own action string in every other case.
\<close>

theorem pull_request_verb:
  "(let w' = fst (handleEvent llm n w (PullRequestEvent act pr));
        a = last (getAction w' (pr_Number pr))
    in pr_Number pr \<in> dom (pulls w')
     \<and> getAction w' (pr_Number pr) = getAction w (pr_Number pr) @ [a]
     \<and> object a = ObjectPR
     \<and> (act = ''closed'' \<and> pr_Merged pr \<longrightarrow> action a = ''merged'')
     \<and> (act = ''closed'' \<and> \<not> pr_Merged pr \<longrightarrow> action a = ''closed'')
     \<and> (act \<noteq> ''closed'' \<longrightarrow> action a = act))"
  by (simp add: Let_def split_beta getAction_addAction)

text \<open>Runs of C5: a merged pull request 42, and pull request 5 closed and reopened.\<close>

theorem pull_request_verb_witness:
  "(let w' = fst (handleEvent echo 0 (newWork ''alice'') (PullRequestEvent ''closed'' pull42))
    in 42 \<in> dom (pulls w') \<and> 42 \<notin> dom (issues w')
     \<and> action (last (getAction w' 42)) = ''merged'')
   \<and> action (last (getAction (fst (handleEvent echo 0 (newWork ''alice'')
         (PullRequestEvent ''closed'' pull5))) 5)) = ''closed''
   \<and> action (last (getAction (fst (handleEvent echo 0 (newWork ''alice'')
         (PullRequestEvent ''reopened'' pull5))) 5)) = ''reopened''"
  using pull_request_verb [of echo 0 "newWork ''alice''" "''closed''" pull42]
    pull_request_verb [of echo 0 "newWork ''alice''" "''closed''" pull5]
    pull_request_verb [of echo 0 "newWork ''alice''" "''reopened''" pull5]
  by (simp add: Let_def split_beta pull42_def pull5_def newWork_def)

text \<open>
  C7, as amended. Handling an issue comment event records the work item in \<open>issues\<close> when
  the issue is not flagged as a pull request and in \<open>pulls\<close> when it is, leaving the other
  map as it was. The action appended has object kind issue comment and the event's own
  action string as verb.
\<close>

theorem issue_comment_target:
  "(let w' = fst (handleEvent llm n w (IssueCommentEvent act iss body));
        i = issue_Number iss;
        a = last (getAction w' i)
    in (if issue_IsPullRequest iss
        then i \<in> dom (pulls w') \<and> issues w' = issues w
        else i \<in> dom (issues w') \<and> pulls w' = pulls w)
     \<and> getAction w' i = getAction w i @ [a]
     \<and> object a = ObjectIssueComment
     \<and> action a = act)"
  by (simp add: Let_def split_beta getAction_addAction)

text \<open>Runs of C7's amended statement: a comment on issue 10 and one on pull request 7.\<close>

theorem issue_comment_target_witness:
  "(let w' = fst (handleEvent echo 0 (newWork ''alice'') (IssueCommentEvent ''created'' issue10 ''lgtm''))
    in 10 \<in> dom (issues w') \<and> pulls w' = Map.empty
     \<and> object (last (getAction w' 10)) = ''issue comment''
     \<and> action (last (getAction w' 10)) = ''created'')
 \<and> (let w' = fst (handleEvent echo 0 (newWork ''alice'') (IssueCommentEvent ''created'' flagged7 ''lgtm''))
    in 7 \<in> dom (pulls w') \<and> issues w' = Map.empty)"
  using issue_comment_target [of echo 0 "newWork ''alice''" "''created''" issue10 "''lgtm''"]
    issue_comment_target [of echo 0 "newWork ''alice''" "''created''" flagged7 "''lgtm''"]
  by (simp add: Let_def split_beta issue10_def flagged7_def newWork_def ObjectIssueComment_def)

text \<open>
  C7 as stated fails: a comment on pull request 7 arrives as an issue comment event whose
  issue is flagged as a pull request, and 7 is recorded in \<open>pulls\<close>, not in \<open>issues\<close>.
\<close>

theorem issue_comment_on_pull_request:
  "7 \<notin> dom (issues (fst (handleEvent noAnswer 0 (newWork ''alice'')
       (IssueCommentEvent ''created'' flagged7 ''lgtm''))))
   \<and> 7 \<in> dom (pulls (fst (handleEvent noAnswer 0 (newWork ''alice'')
       (IssueCommentEvent ''created'' flagged7 ''lgtm''))))"
  by (simp add: split_beta flagged7_def newWork_def)

lemma handleEvent_actions:
  "map (\<lambda>a. (action a, object a)) (getAction (fst (handleEvent llm n w p)) i) =
     map (\<lambda>a. (action a, object a)) (getAction w i) @
       map verbObject (filter (\<lambda>p. refId p = Some i) [p])"
  by (cases p)
    (simp_all add: Let_def split_beta getAction_addAction refId_def
      ObjectIssue_def ObjectPR_def ObjectIssueComment_def ObjectPRComment_def)

lemma handleEvents_actions:
  "map (\<lambda>a. (action a, object a)) (getAction (fst (handleEvents llm n w ps)) i) =
     map (\<lambda>a. (action a, object a)) (getAction w i) @
       map verbObject (filter (\<lambda>p. refId p = Some i) ps)"
proof (induction ps arbitrary: n w)
  case Nil
  show ?case by simp
next
  case (Cons p ps)
  have "map (\<lambda>a. (action a, object a)) (getAction (fst (handleEvents llm n w (p # ps))) i) =
        map (\<lambda>a. (action a, object a)) (getAction (fst (handleEvent llm n w p)) i) @
          map verbObject (filter (\<lambda>p. refId p = Some i) ps)"
    by (simp add: split_beta Cons.IH)
  also have "\<dots> = map (\<lambda>a. (action a, object a)) (getAction w i) @
      (map verbObject (filter (\<lambda>p. refId p = Some i) [p]) @
       map verbObject (filter (\<lambda>p. refId p = Some i) ps))"
    by (simp only: handleEvent_actions append_assoc)
  finally show ?case by simp
qed

lemma refId_idsInto:
  "filter (\<lambda>p. refId p = Some i) ps \<noteq> [] \<Longrightarrow>
     i \<in> set (idsInto IssuesMap ps) \<union> set (idsInto PullsMap ps)"
proof (induction ps)
  case Nil
  then show ?case by simp
next
  case (Cons p ps)
  show ?case
  proof (cases "refId p = Some i")
    case True
    then obtain t where "upsertTarget p = Some (t, i)"
      by (auto simp add: refId_def)
    then show ?thesis by (cases t) simp_all
  next
    case False
    with Cons.prems have "filter (\<lambda>p. refId p = Some i) ps \<noteq> []" by simp
    then have "i \<in> set (idsInto IssuesMap ps) \<union> set (idsInto PullsMap ps)"
      by (rule Cons.IH)
    then show ?thesis
      by (auto split: option.splits)
  qed
qed

text \<open>
  C6. After ingesting any sequence of events into an empty ledger, the actions stored under
  an id are as many as the classified events that reference the id; their verbs and object
  kinds are those of these events, in the order the events arrived; and where the list of
  actions is not empty, the id is in \<open>issues\<close> or in \<open>pulls\<close>.
\<close>

theorem actions_follow_events:
  "(let w = fst (handleEvents llm n (newWork u) ps);
        refs = filter (\<lambda>p. refId p = Some i) ps
    in length (getAction w i) = length refs
     \<and> map (\<lambda>a. (action a, object a)) (getAction w i) = map verbObject refs
     \<and> (getAction w i \<noteq> [] \<longrightarrow> i \<in> dom (issues w) \<union> dom (pulls w)))"
proof -
  let ?w = "fst (handleEvents llm n (newWork u) ps)"
  let ?refs = "filter (\<lambda>p. refId p = Some i) ps"
  have seq: "map (\<lambda>a. (action a, object a)) (getAction ?w i) = map verbObject ?refs"
    using handleEvents_actions [of llm n "newWork u" ps i] by simp
  have len: "length (getAction ?w i) = length ?refs"
    using arg_cong [OF seq, of length] by simp
  have "i \<in> dom (issues ?w) \<union> dom (pulls ?w)" if "getAction ?w i \<noteq> []"
  proof -
    from that len have "?refs \<noteq> []" by auto
    then have "i \<in> set (idsInto IssuesMap ps) \<union> set (idsInto PullsMap ps)"
      by (rule refId_idsInto)
    then show ?thesis
      unfolding handleEvents_dom_issues handleEvents_dom_pulls by blast
  qed
  with seq len show ?thesis
    by (simp only: Let_def) blast
qed

text \<open>A run of C6: issue 10 opened, an ignored push, and a comment on issue 10.\<close>

theorem actions_follow_events_witness:
  "(let w = fst (handleEvents echo 0 (newWork ''alice'')
               [IssuesEvent ''opened'' issue10, PushEvent,
                IssueCommentEvent ''created'' issue10 ''lgtm''])
    in length (getAction w 10) = 2
     \<and> map object (getAction w 10) = [''issue'', ''issue comment'']
     \<and> map action (getAction w 10) = [''opened'', ''created'']
     \<and> 10 \<in> dom (issues w) \<union> dom (pulls w))"
proof -
  let ?ps = "[IssuesEvent ''opened'' issue10, PushEvent,
              IssueCommentEvent ''created'' issue10 ''lgtm'']"
  let ?w = "fst (handleEvents echo 0 (newWork ''alice'') ?ps)"
  have refs: "filter (\<lambda>p. refId p = Some 10) ?ps =
      [IssuesEvent ''opened'' issue10, IssueCommentEvent ''created'' issue10 ''lgtm'']"
    by (simp add: refId_def issue10_def)
  have "length (getAction ?w 10) = 2
     \<and> map (\<lambda>a. (action a, object a)) (getAction ?w 10) =
         [(''opened'', ''issue''), (''created'', ''issue comment'')]
     \<and> (getAction ?w 10 \<noteq> [] \<longrightarrow> 10 \<in> dom (issues ?w) \<union> dom (pulls ?w))"
    using actions_follow_events [of echo 0 "''alice''" ?ps 10]
    unfolding Let_def refs by simp
  then have a: "length (getAction ?w 10) = 2"
    and b: "map (\<lambda>a. (action a, object a)) (getAction ?w 10) =
         [(''opened'', ''issue''), (''created'', ''issue comment'')]"
    and c: "getAction ?w 10 \<noteq> [] \<longrightarrow> 10 \<in> dom (issues ?w) \<union> dom (pulls ?w)"
    by blast+
  from a have ne: "getAction ?w 10 \<noteq> []" by auto
  have "map object (getAction ?w 10) = map snd (map (\<lambda>a. (action a, object a)) (getAction ?w 10))"
    by simp
  then have o: "map object (getAction ?w 10) = [''issue'', ''issue comment'']"
    unfolding b by simp
  have "map action (getAction ?w 10) = map fst (map (\<lambda>a. (action a, object a)) (getAction ?w 10))"
    by simp
  then have v: "map action (getAction ?w 10) = [''opened'', ''created'']"
    unfolding b by simp
  from a o v c ne show ?thesis
    by (simp only: Let_def) blast
qed

section \<open>Properties of the date keywords\<close>

text \<open>The calendar at a few dates: 14 November 2023, a Tuesday, and 29 February 2000.\<close>

lemma calendar_examples:
  "civil 0 = (1970, 1, 1)"
  "civil 19675 = (2023, 11, 14)"
  "daysFromCivil 2023 11 14 = 19675"
  "civil 11016 = (2000, 2, 29)"
  "daysFromCivil 2000 2 29 = 11016"
  "Weekday tuesday1430 = 2"
  unfolding civil_def daysFromCivil_def Weekday_def tuesday1430_def Let_def by simp_all

lemma this_week_result:
  "pickDate now ''this-week'' =
     Inr (wall (Location now)
            (day now - (if Weekday now = Sunday then 6 else Weekday now - 1)) (clock now))"
proof -
  have "0 \<le> Weekday now"
    by (simp add: Weekday_def)
  then show ?thesis
    by (auto simp add: pickDate_def Let_def AddDate_def Monday_def Sunday_def)
qed

lemma last_week_result:
  "pickDate now ''last-week'' =
     Inr (wall (Location now) (day now - (Weekday now + 6)) (clock now))"
  by (simp add: pickDate_def Let_def AddDate_def)






text \<open>
  C3 fails on Sundays. On Sunday 19 November 2023, \<open>this-week\<close> and \<open>last-week\<close> both
  resolve to Monday 13 November: \<open>last-week\<close> adds 6 to a weekday number that is 0 on a
  Sunday, where \<open>this-week\<close> counts the Sunday as the seventh day.
\<close>

theorem last_week_on_sunday:
  "pickDate sunday1430 ''this-week'' =
     Inr \<lparr>day = 19674, clock = 52200000000000, Location = fixedZone\<rparr>
   \<and> pickDate sunday1430 ''last-week'' =
     Inr \<lparr>day = 19674, clock = 52200000000000, Location = fixedZone\<rparr>"
  by (simp add: pickDate_def sunday1430_def Weekday_def Monday_def AddDate_def wall_def
      fixedZone_def)

text \<open>
  On every Sunday the two keywords resolve to the same instant, and on the other six days
  \<open>last-week\<close> is 7 days before \<open>this-week\<close>.
\<close>

lemma last_week_every_sunday:
  "Weekday now = Sunday \<Longrightarrow> pickDate now ''last-week'' = pickDate now ''this-week''"
  unfolding this_week_result last_week_result
  by (simp add: Sunday_def)

lemma last_week_other_days:
  "Weekday now \<noteq> Sunday \<Longrightarrow>
   \<exists>t u. pickDate now ''this-week'' = Inr t \<and> pickDate now ''last-week'' = Inr u
     \<and> day u = day t - 7"
  unfolding this_week_result last_week_result
  by (simp add: wall_def)

text \<open>
  C8. \<open>pickDate\<close> returns an error exactly when its argument is none of the seven keywords;
  the error is then the one with the message \<open>invalid argument\<close>, and for each of the seven
  keywords the result is an instant.
\<close>

theorem pickDate_error_iff:
  "(isl (pickDate now arg) \<longleftrightarrow>
      arg \<notin> {''today'', ''yesterday'', ''last-3days'', ''this-week'', ''last-week'',
               ''this-month'', ''last-month''})
   \<and> (isl (pickDate now arg) \<longrightarrow> pickDate now arg = Inl (Error ''invalid argument''))"
  by (simp add: pickDate_def Let_def)

text \<open>Runs of C8: an unknown keyword and \<open>last-month\<close>.\<close>

theorem pickDate_error_iff_witness:
  "pickDate tuesday1430 ''tomorrow'' = Inl (Error ''invalid argument'')
   \<and> \<not> isl (pickDate tuesday1430 ''last-month'')"
  using pickDate_error_iff [of tuesday1430 "''tomorrow''"]
    pickDate_error_iff [of tuesday1430 "''last-month''"]
  by simp

section \<open>Properties of the repository filter\<close>

text \<open>
  The page loop hands to \<open>handleEvent\<close>, in order, the events of the page up to the first
  one created before the begin date, those of other repositories left out.
\<close>

lemma handlePage_handleEvents:
  "handlePage llm beginDate wantedRepo n w es =
     handleEvents llm n w
       (map payload
         (filter (\<lambda>e. wantedRepo = [] \<or> repoName e = wantedRepo)
           (takeWhile (\<lambda>e. \<not> Before (createdAt e) beginDate) es)))"
  by (induction es arbitrary: n w) (simp_all add: split_beta)

lemma lowerChar_not_upper: "\<not> isUpper (lowerChar c)"
  by (auto simp add: lowerChar_def isUpper_def)

lemma ToLower_no_upper: "c \<in> set (ToLower s) \<Longrightarrow> \<not> isUpper c"
  by (auto simp add: ToLower_def lowerChar_not_upper)

lemma mainArgs_wantedRepo:
  assumes "mainArgs now args = Inr (summaryType, wantedRepo, beginDate)"
  shows "wantedRepo = (if args ! 2 \<noteq> [] then ToLower (args ! 2) else [])"
  using assms
  by (simp add: mainArgs_def Let_def split: if_splits sum.splits)

text \<open>
  C10. The repository filter is the third argument in lower case, and \<open>main\<close> compares the
  repository name of an event with it as it is. So when a filter is given (and the
  arguments are accepted), an event whose repository name has an upper-case letter never
  equals the filter: the page loop passes over it without handling it, also when name and
  filter differ in letter case only.
\<close>

theorem uppercase_repository_is_skipped:
  assumes "\<exists>c \<in> set (repoName e). isUpper c"
    and "mainArgs now args = Inr (summaryType, wantedRepo, beginDate)"
    and "args ! 2 \<noteq> []"
  shows "wantedRepo = ToLower (args ! 2)
       \<and> repoName e \<noteq> wantedRepo
       \<and> handlePage llm beginDate wantedRepo n w (e # es) =
           (if Before (createdAt e) beginDate then (w, n)
            else handlePage llm beginDate wantedRepo n w es)"
proof -
  have wanted: "wantedRepo = ToLower (args ! 2)"
    using mainArgs_wantedRepo [OF assms(2)] assms(3) by simp
  with assms(3) have nonempty: "wantedRepo \<noteq> []"
    by (simp add: ToLower_def)
  have differs: "repoName e \<noteq> wantedRepo"
  proof
    assume "repoName e = wantedRepo"
    with assms(1) wanted obtain c where "c \<in> set (ToLower (args ! 2))" and "isUpper c"
      by auto
    then show False
      by (simp add: ToLower_no_upper)
  qed
  from wanted nonempty differs show ?thesis by simp
qed

text \<open>
  A run of C10: the filter \<open>Rafaeldtinoco/GHTimecardator\<close> and an event of the repository
  of that very name. The event is not handled.
\<close>

theorem uppercase_repository_is_skipped_witness:
  "ToLower (repoName mixedCaseEvent) = ''rafaeldtinoco/ghtimecardator''
   \<and> handlePage echo \<lparr>day = 19674, clock = 52200000000000, Location = fixedZone\<rparr>
        ''rafaeldtinoco/ghtimecardator''
        0 (newWork ''alice'') [mixedCaseEvent] = (newWork ''alice'', 0)"
proof -
  have upper: "\<exists>c \<in> set (repoName mixedCaseEvent). isUpper c"
    by (simp add: mixedCaseEvent_def isUpper_def)
  have lower: "ToLower ''Rafaeldtinoco/GHTimecardator'' = ''rafaeldtinoco/ghtimecardator''"
    by code_simp
  have parsed:
    "mainArgs tuesday1430 [''this-week'', ''executive'', ''Rafaeldtinoco/GHTimecardator''] =
       Inr (''executive'', ''rafaeldtinoco/ghtimecardator'',
            \<lparr>day = 19674, clock = 52200000000000, Location = fixedZone\<rparr>)"
    by (simp add: mainArgs_def lower Contains_def pickDate_def tuesday1430_def Weekday_def
        Monday_def AddDate_def wall_def fixedZone_def)
  have given: "[''this-week'', ''executive'', ''Rafaeldtinoco/GHTimecardator''] ! 2 \<noteq> []"
    by simp
  have "\<not> Before (createdAt mixedCaseEvent)
      \<lparr>day = 19674, clock = 52200000000000, Location = fixedZone\<rparr>"
    by (simp add: Before_def mixedCaseEvent_def tuesday1430_def)
  with uppercase_repository_is_skipped [OF upper parsed given, of echo 0 "newWork ''alice''" "[]"]
  show ?thesis
    by (simp add: mixedCaseEvent_def lower)
qed

section \<open>Properties of the report\<close>

lemma keyed_newWork: "keyed (newWork u)"
  by (simp add: keyed_def newWork_def)

lemma keyed_addIssue: "keyed w \<Longrightarrow> keyed (fst (addIssue llm n w iss))"
  by (auto simp add: keyed_def addIssue_def Let_def split_beta)

lemma keyed_addPullRequest: "keyed w \<Longrightarrow> keyed (fst (addPullRequest llm n w pr))"
  by (auto simp add: keyed_def addPullRequest_def Let_def split_beta)

lemma keyed_addAction: "keyed w \<Longrightarrow> keyed (addAction w i a)"
  by (simp add: keyed_def)

lemma keyed_handleEvent: "keyed w \<Longrightarrow> keyed (fst (handleEvent llm n w p))"
  by (cases p) (simp_all add: Let_def split_beta keyed_addAction keyed_addIssue keyed_addPullRequest)

lemma keyed_handleEvents: "keyed w \<Longrightarrow> keyed (fst (handleEvents llm n w ps))"
  by (induction ps arbitrary: n w) (simp_all add: split_beta keyed_handleEvent)

lemma keyed_lookup:
  assumes "keyed w" and "issues w i = Some m \<or> pulls w i = Some m"
  shows "getIssueOrPR w (eventId m) \<noteq> None"
  using assms by (auto simp add: keyed_def getIssueOrPR_def split: option.splits)

lemma actionSummary_found:
  "getIssueOrPR w i = Some meta \<Longrightarrow>
     actionSummary llm n w i = Some (executeAI llm n actionSummaryString (actionInstr w i meta))"
  by (simp add: actionSummary_def)

lemma executeAI_nil: "fst (llm n role instr) = None \<Longrightarrow> executeAI llm n role instr = ([], Suc n)"
  by (simp add: executeAI_def)

lemma reportEntries_total:
  "\<forall>m \<in> set items. getIssueOrPR w (eventId m) \<noteq> None \<Longrightarrow>
     \<exists>r. reportEntries label llm w n report items = Some (r, n + length items)"
proof (induction items arbitrary: n report)
  case Nil
  show ?case by simp
next
  case (Cons item rest)
  from Cons.prems obtain meta where meta: "getIssueOrPR w (eventId item) = Some meta"
    by auto
  obtain result where result:
    "executeAI llm n actionSummaryString (actionInstr w (eventId item) meta) = (result, Suc n)"
    using executeAI_calls [of llm n actionSummaryString "actionInstr w (eventId item) meta"]
    by (cases "executeAI llm n actionSummaryString (actionInstr w (eventId item) meta)") simp
  from Cons.prems have "\<forall>m \<in> set rest. getIssueOrPR w (eventId m) \<noteq> None"
    by simp
  from Cons.IH [OF this, of "Suc n"
      "report @ entryHeader label item @ ''Description: '' @ result @ ''\<newline>''"]
  show ?case
    by (simp add: actionSummary_found [OF meta] result)
qed

lemma map_filter_in_map: "m \<in> set (List.map_filter f ks) \<Longrightarrow> \<exists>k. f k = Some m"
  by (auto simp add: List.map_filter_def)

lemma createReport_total:
  assumes "keyed w"
  shows "\<exists>r. createReport llm n w issueOrder pullOrder =
           Some (r, n + length (List.map_filter (issues w) issueOrder)
                      + length (List.map_filter (pulls w) pullOrder))"
proof -
  let ?is = "List.map_filter (issues w) issueOrder"
  let ?ps = "List.map_filter (pulls w) pullOrder"
  have "\<forall>m \<in> set ?is. getIssueOrPR w (eventId m) \<noteq> None"
    using keyed_lookup [OF assms] map_filter_in_map by metis
  then obtain r1 where r1:
    "reportEntries ''Issue'' llm w n ''\<newline>Issues:\<newline>\<newline>'' ?is = Some (r1, n + length ?is)"
    using reportEntries_total by blast
  have "\<forall>m \<in> set ?ps. getIssueOrPR w (eventId m) \<noteq> None"
    using keyed_lookup [OF assms] map_filter_in_map by metis
  then obtain r2 where
    "reportEntries ''PR'' llm w (n + length ?is) (r1 @ ''\<newline>Pulls:\<newline>\<newline>'') ?ps =
       Some (r2, n + length ?is + length ?ps)"
    using reportEntries_total by blast
  with r1 show ?thesis
    by (simp add: createReport_def)
qed

text \<open>
  C9. When the summarizer returns no answer, \<open>executeAI\<close> returns the empty string. So the
  narrative of a work item whose call fails is empty, and the report loop goes on to the
  remaining items with an entry whose description is empty. For a ledger built by ingesting
  any events, the report is produced whatever the summarizer answers: no call can abort
  it, and there is one call for each item visited. The report functions read the ledger and
  return text only, so the ledger stays as it was. \<open>executeAI\<close> drops the error of the call
  and looks at the answer alone; the chat client returns a nil answer with every error.
\<close>

theorem summarizer_failure_not_fatal:
  "(fst (llm n role instr) = None \<longrightarrow> executeAI llm n role instr = ([], Suc n))
   \<and> (getIssueOrPR w i = Some meta
        \<and> fst (llm n actionSummaryString (actionInstr w i meta)) = None \<longrightarrow>
      actionSummary llm n w i = Some ([], Suc n))
   \<and> (getIssueOrPR w (eventId item) = Some meta
        \<and> fst (llm n actionSummaryString (actionInstr w (eventId item) meta)) = None \<longrightarrow>
      reportEntries label llm w n report (item # rest) =
        reportEntries label llm w (Suc n)
          (report @ entryHeader label item @ ''Description: \<newline>'') rest)
   \<and> (\<exists>r. createReport llm n (fst (handleEvents llm0 n0 (newWork u) ps)) issueOrder pullOrder =
        Some (r, n
          + length (List.map_filter (issues (fst (handleEvents llm0 n0 (newWork u) ps))) issueOrder)
          + length (List.map_filter (pulls (fst (handleEvents llm0 n0 (newWork u) ps))) pullOrder)))"
proof -
  have ingested: "keyed (fst (handleEvents llm0 n0 (newWork u) ps))"
    by (rule keyed_handleEvents) (rule keyed_newWork)
  show ?thesis
    using createReport_total [OF ingested]
    by (simp add: executeAI_nil actionSummary_found)
qed

lemma twoItems_issues: "issues twoItems = [5 \<mapsto> issue5Meta]"
  by (simp add: twoItems_def split_beta addIssue_def addPullRequest_def descriptionSummary_def
      executeAI_def failOn_def newWork_def issue5_def pull42_def issue5Meta_def)

lemma twoItems_pulls: "pulls twoItems = [42 \<mapsto> pull42Meta]"
  by (simp add: twoItems_def split_beta addIssue_def addPullRequest_def descriptionSummary_def
      executeAI_def failOn_def newWork_def issue5_def pull42_def pull42Meta_def)

text \<open>The instruction sent for issue 5 of the example ledger.\<close>

lemma actionInstr_issue5:
  "actionInstr twoItems 5 issue5Meta = 
  ''Summary of #5 (https://github.com/a/x/issues/5) Crash on start\<newline>-\<newline>'' @
  ''Author: true\<newline>-\<newline>Description: ok\<newline>-\<newline>Actions: 1\<newline>-\<newline>'' @
  ''Action: opened\<newline>Object: issue\<newline>Content: ok\<newline>-\<newline>''"
proof -
  have "getAction twoItems 5 = [\<lparr>action = ''opened'', object = ''issue'', content = ''ok''\<rparr>]"
    by (simp add: twoItems_def split_beta getAction_def addAction_def addIssue_def
      addPullRequest_def descriptionSummary_def executeAI_def failOn_def ObjectIssue_def
      issue5_def pull42_def newWork_def)
  moreover have "formatInt 5 = ''5''" "formatInt 1 = ''1''" by code_simp+
  ultimately show ?thesis
    by (simp add: actionInstr_def issue5Meta_def formatBool_def)
qed

text \<open>
  A run of C9: a ledger with issue 5 and pull request 42, and a summarizer that fails for
  issue 5 only. The report has both entries, the first with an empty description.
\<close>

theorem summarizer_failure_not_fatal_witness:
  "getIssueOrPR twoItems 5 = Some issue5Meta
   \<and> fst (failOn 4 4 actionSummaryString (actionInstr twoItems 5 issue5Meta)) = None
   \<and> actionSummary (failOn 4) 4 twoItems 5 = Some ([], 5)
   \<and> createReport (failOn 4) 4 twoItems [5] [42] =
       Some (''\<newline>Issues:\<newline>\<newline>'' @
             ''Issue: #5 (https://github.com/a/x/issues/5) Crash on start\<newline>'' @
             ''Description: \<newline>'' @
             ''\<newline>Pulls:\<newline>\<newline>'' @
             ''PR: #42 (https://github.com/a/x/pull/42) Fix crash\<newline>'' @
             ''Description: ok\<newline>'', 6)"
proof -
  have found: "getIssueOrPR twoItems 5 = Some issue5Meta"
    by (simp add: getIssueOrPR_def twoItems_issues)
  have found': "getIssueOrPR twoItems 42 = Some pull42Meta"
    by (simp add: getIssueOrPR_def twoItems_issues twoItems_pulls)
  have failed: "fst (failOn 4 4 actionSummaryString (actionInstr twoItems 5 issue5Meta)) = None"
    by (simp add: failOn_def)
  have five: "formatInt 5 = ''5''" and fortytwo: "formatInt 42 = ''42''"
    by code_simp+
  have first: "actionSummary (failOn 4) 4 twoItems 5 = Some ([], 5)"
    using summarizer_failure_not_fatal [of "failOn 4" 4 actionSummaryString
        "actionInstr twoItems 5 issue5Meta" twoItems 5 issue5Meta issue5Meta "''Issue''" "[]" "[]"]
      found failed
    by simp
  have second: "actionSummary (failOn 4) 5 twoItems 42 = Some (''ok'', 6)"
    by (simp add: actionSummary_found [OF found'] executeAI_def failOn_def)
  have "createReport (failOn 4) 4 twoItems [5] [42] =
       Some (''\<newline>Issues:\<newline>\<newline>'' @
             ''Issue: #5 (https://github.com/a/x/issues/5) Crash on start\<newline>'' @
             ''Description: \<newline>'' @
             ''\<newline>Pulls:\<newline>\<newline>'' @
             ''PR: #42 (https://github.com/a/x/pull/42) Fix crash\<newline>'' @
             ''Description: ok\<newline>'', 6)"
    by (simp add: createReport_def List.map_filter_def twoItems_issues twoItems_pulls
        issue5Meta_def pull42Meta_def first second entryHeader_def five fortytwo)
  with found failed first show ?thesis by blast
qed

end
